theory Spec2Isabelle
  imports Complex_Main
begin

section \<open>Python values\<close>

text \<open>
  Two scripts are embedded: the volume calculator (\<^verbatim>\<open>Volume surface calculator/main.py\<close>)
  and the weekly temperature report (\<^verbatim>\<open>Weekly_Temp_Graph/main.py\<close>).

  Python's unbounded \<^verbatim>\<open>int\<close> is \<^typ>\<open>int\<close>. A Python \<^verbatim>\<open>float\<close> is modelled by the
  rational number it denotes, and the arithmetic on floats by exact arithmetic on
  \<^typ>\<open>rat\<close>: every finite double is a rational, but the rounding of each operation to 53
  bits, overflow and the conversion limits of huge integers are not part of this model.
  Exceptions are values of the type \<open>error\<close>, returned on the left of a sum.
\<close>

datatype error = ZeroDivisionError | ValueError

text \<open>True division \<^verbatim>\<open>a / b\<close>: raises on a zero divisor.\<close>

definition py_truediv :: "rat \<Rightarrow> rat \<Rightarrow> error + rat" where
  "py_truediv a b = (if b = 0 then Inl ZeroDivisionError else Inr (a / b))"

text \<open>\<^verbatim>\<open>range(n)\<close>: the integers \<open>0, ..., n - 1\<close>, empty when \<open>n \<le> 0\<close>.\<close>

definition py_range :: "int \<Rightarrow> int list" where
  "py_range n = map int [0..<nat n]"

section \<open>The volume calculator\<close>

text \<open>\<^verbatim>\<open>def surface_function(x, y): return x ** 2 + y ** 2\<close>\<close>

definition surface_function :: "rat \<Rightarrow> rat \<Rightarrow> rat" where
  "surface_function x y = x ^ 2 + y ^ 2"


text \<open>
  The body of the inner loop of \<^verbatim>\<open>numerical_integration_riemann\<close>:
  \<^verbatim>\<open>
      x = (i + 0.5) * dx  # Midpoint rule
      y = (j + 0.5) * dy
      volume += surface_function(x, y) * dx * dy
  \<close>
  as a function from the accumulator \<open>volume\<close> to its new value.
\<close>

definition riemann_cell :: "rat \<Rightarrow> rat \<Rightarrow> int \<Rightarrow> int \<Rightarrow> rat \<Rightarrow> rat" where
  "riemann_cell dx dy i j volume =
     (let x = (of_int i + 1 / 2) * dx;
          y = (of_int j + 1 / 2) * dy
      in volume + surface_function x y * dx * dy)"

text \<open>
  \<^verbatim>\<open>
  def numerical_integration_riemann(n=100):
      dx = dy = 1.0 / n
      volume = 0
      for i in range(n):
          for j in range(n):
              ...
      return volume
  \<close>
  The division comes first and is the only operation that can raise; the two loops
  are folds over \<^verbatim>\<open>range(n)\<close> threading \<open>volume\<close>.
\<close>

definition numerical_integration_riemann :: "int \<Rightarrow> error + rat" where
  "numerical_integration_riemann n =
     (case py_truediv 1 (of_int n) of
        Inl e \<Rightarrow> Inl e
      | Inr dx \<Rightarrow>
          let dy = dx;
              volume = 0
          in Inr (fold (\<lambda>i. fold (\<lambda>j. riemann_cell dx dy i j) (py_range n)) (py_range n) volume))"


subsection \<open>Quadrature\<close>

text \<open>
  \<^verbatim>\<open>
  def numerical_integration_scipy():
      result, error = integrate.dblquad(surface_function, 0, 1, 0, 1)
      return result, error
  \<close>
  SciPy's adaptive integrator \<^verbatim>\<open>integrate.dblquad\<close> is the parameter \<open>dblquad\<close>; the
  function hands it the surface function and the four bounds and returns its pair
  (estimate, error estimate) unchanged.
\<close>

definition numerical_integration_scipy ::
  "((rat \<Rightarrow> rat \<Rightarrow> rat) \<Rightarrow> rat \<Rightarrow> rat \<Rightarrow> rat \<Rightarrow> rat \<Rightarrow> rat \<times> rat) \<Rightarrow> rat \<times> rat" where
  "numerical_integration_scipy dblquad =
     (let (result, err) = dblquad surface_function 0 1 0 1 in (result, err))"

subsection \<open>Monte Carlo\<close>

text \<open>A NumPy float result: a number, or \<^verbatim>\<open>nan\<close>.\<close>

datatype np_float = Num rat | NaN

text \<open>
  Modelled from the spec: \<^verbatim>\<open>np.mean\<close> is NumPy's, not this repository's. The spec calls
  its result the sample mean; on an empty array NumPy returns \<^verbatim>\<open>nan\<close> (with a warning)
  and does not raise.
\<close>

definition np_mean :: "rat list \<Rightarrow> np_float" where
  "np_mean zs = (if zs = [] then NaN else Num (sum_list zs / of_nat (length zs)))"

text \<open>Multiplying a NumPy float by a Python float; \<^verbatim>\<open>nan\<close> is absorbing.\<close>

fun np_times :: "np_float \<Rightarrow> rat \<Rightarrow> np_float" where
  "np_times (Num a) b = Num (a * b)"
| "np_times NaN b = NaN"

text \<open>
  \<^verbatim>\<open>
  def monte_carlo_integration(n_points=100000):
      x_random = np.random.uniform(0, 1, n_points)
      y_random = np.random.uniform(0, 1, n_points)
      z_values = surface_function(x_random, y_random)
      volume = np.mean(z_values) * 1.0  # Unit square has area 1
      return volume
  \<close>
  \<^verbatim>\<open>np.random.uniform(0, 1, size)\<close> is the parameter \<open>uniform\<close>: from the state of the
  global generator and a size it gives the array drawn and the generator's next state.
  NumPy refuses a negative size with \<^verbatim>\<open>ValueError\<close>. The surface function is applied
  elementwise to the two arrays, which have the same length.
\<close>

definition monte_carlo_integration ::
  "('g \<Rightarrow> nat \<Rightarrow> rat list \<times> 'g) \<Rightarrow> int \<Rightarrow> 'g \<Rightarrow> (error + np_float) \<times> 'g" where
  "monte_carlo_integration uniform n_points g =
     (if n_points < 0 then (Inl ValueError, g)
      else
        let (x_random, g1) = uniform g (nat n_points);
            (y_random, g2) = uniform g1 (nat n_points);
            z_values = map2 surface_function x_random y_random;
            volume = np_times (np_mean z_values) 1
        in (Inr volume, g2))"



text \<open>A generator for examples: its state is the list of numbers still to be handed out.\<close>

definition tape_uniform :: "rat list \<Rightarrow> nat \<Rightarrow> rat list \<times> rat list" where
  "tape_uniform g n = (take n g, drop n g)"

subsection \<open>The convergence table of \<^verbatim>\<open>main\<close>\<close>




subsection \<open>The midpoint rule as the specification words it\<close>




section \<open>The weekly temperature report\<close>












section \<open>Properties of the Riemann sum\<close>

text \<open>The loops add up one term per cell: the inner fold, then the outer one.\<close>

lemma fold_riemann_cell:
  "fold (\<lambda>j. riemann_cell dx dy i j) js v =
     v + (\<Sum>j\<leftarrow>js. surface_function ((of_int i + 1 / 2) * dx) ((of_int j + 1 / 2) * dy) * dx * dy)"
  by (induction js arbitrary: v) (simp_all add: riemann_cell_def add.assoc)

lemma fold_fold_riemann_cell:
  "fold (\<lambda>i. fold (\<lambda>j. riemann_cell dx dy i j) js) is v =
     v + (\<Sum>i\<leftarrow>is. \<Sum>j\<leftarrow>js.
            surface_function ((of_int i + 1 / 2) * dx) ((of_int j + 1 / 2) * dy) * dx * dy)"
  by (induction "is" arbitrary: v) (simp_all add: fold_riemann_cell add.assoc)

lemma riemann_double_sum:
  assumes "n \<noteq> 0"
  shows "numerical_integration_riemann n =
     Inr (\<Sum>i\<leftarrow>py_range n. \<Sum>j\<leftarrow>py_range n.
            surface_function ((of_int i + 1 / 2) * (1 / of_int n)) ((of_int j + 1 / 2) * (1 / of_int n))
              * (1 / of_int n) * (1 / of_int n))"
  using assms
  by (simp add: numerical_integration_riemann_def py_truediv_def fold_fold_riemann_cell)

text \<open>The sum of the squared midpoints \<open>(i + 1/2)\<^sup>2\<close> for \<open>i < m\<close>, and the closed form of
  the double sum that follows from it.\<close>

lemma sum_half_squares:
  "(\<Sum>i\<leftarrow>[0..<m]. (of_nat i + 1 / 2) ^ 2) = (of_nat m * (4 * (of_nat m) ^ 2 - 1) / 12 :: rat)"
  by (induction m) (simp_all add: power2_eq_square field_simps)

lemma cell_term:
  "c \<noteq> 0 \<Longrightarrow> surface_function (a / c) (b / c) / (c * c) = (a ^ 2 + b ^ 2) * (1 / c ^ 4)"
  by (simp add: surface_function_def power2_eq_square power4_eq_xxxx field_simps)

lemma double_sum_split:
  fixes a :: "nat \<Rightarrow> rat"
  shows "(\<Sum>i\<leftarrow>[0..<m]. \<Sum>j\<leftarrow>[0..<m]. (a i + a j) * c)
           = 2 * of_nat m * (\<Sum>i\<leftarrow>[0..<m]. a i) * c"
proof -
  have inner: "(\<Sum>j\<leftarrow>[0..<m]. (a i + a j) * c) = (of_nat m * a i + (\<Sum>j\<leftarrow>[0..<m]. a j)) * c" for i
    by (simp add: sum_list_mult_const sum_list_addf sum_list_triv)
  show ?thesis
    unfolding inner
    by (simp add: sum_list_mult_const sum_list_addf sum_list_triv sum_list_const_mult)
qed

lemma riemann_closed_form:
  assumes "1 \<le> n"
  shows "numerical_integration_riemann n = Inr (2 / 3 - 1 / (6 * (of_int n) ^ 2))"
proof -
  define m where "m = nat n"
  have n: "of_int n = (of_nat m :: rat)" and m: "0 < m"
    using assms by (simp_all add: m_def)
  have nz: "(of_nat m :: rat) \<noteq> 0" using m by simp
  have "numerical_integration_riemann n =
      Inr (\<Sum>i\<leftarrow>[0..<m]. \<Sum>j\<leftarrow>[0..<m].
             surface_function ((of_nat i + 1 / 2) / of_nat m) ((of_nat j + 1 / 2) / of_nat m)
               / (of_nat m * of_nat m))"
    using assms nz
    by (simp add: riemann_double_sum py_range_def n m_def[symmetric] comp_def)
  also have "(\<Sum>i\<leftarrow>[0..<m]. \<Sum>j\<leftarrow>[0..<m].
             surface_function ((of_nat i + 1 / 2) / of_nat m) ((of_nat j + 1 / 2) / of_nat m)
               / (of_nat m * of_nat m))
      = 2 * of_nat m * (of_nat m * (4 * (of_nat m) ^ 2 - 1) / 12) * (1 / (of_nat m :: rat) ^ 4)"
    by (simp only: cell_term [OF nz] double_sum_split [where a = "\<lambda>i. (of_nat i + 1 / 2) ^ 2"]
          sum_half_squares)
  also have "\<dots> = 2 / 3 - 1 / (6 * (of_nat m) ^ 2)"
    using nz by (simp add: power2_eq_square power4_eq_xxxx field_simps)
  finally show ?thesis by (simp add: n)
qed

text \<open>
  The estimates converge to \<open>2/3\<close> as the grid is refined: \<open>2/3\<close> is the value of the
  double integral that the midpoint sums approximate.
\<close>

lemma riemann_tends_to_two_thirds:
  "\<exists>r. (\<forall>k. numerical_integration_riemann (int (Suc k)) = Inr (r k))
       \<and> (\<lambda>k. real_of_rat (r k)) \<longlonglongrightarrow> 2 / 3"
proof -
  let ?r = "\<lambda>k. 2 / 3 - 1 / (6 * (of_int (int (Suc k)) :: rat) ^ 2)"
  have run: "numerical_integration_riemann (int (Suc k)) = Inr (?r k)" for k
    by (rule riemann_closed_form) simp
  have val: "real_of_rat (?r k) = 2 / 3 - (1 / 6) * (inverse (real (Suc k)) * inverse (real (Suc k)))" for k
    by (simp add: of_rat_diff of_rat_divide of_rat_mult of_rat_power of_rat_add
          power2_eq_square divide_simps del: of_nat_Suc)
  have sq: "(\<lambda>k. inverse (real (Suc k)) * inverse (real (Suc k))) \<longlonglongrightarrow> 0 * 0"
    by (intro tendsto_mult LIMSEQ_inverse_real_of_nat)
  have "(\<lambda>k. 2 / 3 - (1 / 6) * (inverse (real (Suc k)) * inverse (real (Suc k))))
               \<longlonglongrightarrow> 2 / 3 - (1 / 6) * (0 * 0)"
    by (intro tendsto_diff tendsto_mult tendsto_const sq)
  then have lim: "(\<lambda>k. real_of_rat (?r k)) \<longlonglongrightarrow> 2 / 3"
    by (simp only: val) simp
  show ?thesis
  proof (intro exI conjI allI)
    show "numerical_integration_riemann (int (Suc k)) = Inr (?r k)" for k by (rule run)
    show "(\<lambda>k. real_of_rat (?r k)) \<longlonglongrightarrow> 2 / 3" by (rule lim)
  qed
qed




text \<open>
  C4: on the grid with one cell, \<^verbatim>\<open>numerical_integration_riemann(1)\<close> returns the
  surface function at the midpoint \<open>(0.5, 0.5)\<close> times the unit cell area, which is \<open>0.5\<close>.
\<close>

theorem riemann_one:
  "numerical_integration_riemann 1 = Inr (surface_function (1 / 2) (1 / 2) * 1)
     \<and> surface_function (1 / 2) (1 / 2) * 1 = 1 / 2"
  by (simp add: numerical_integration_riemann_def py_truediv_def py_range_def riemann_cell_def
        surface_function_def power2_eq_square)

text \<open>
  C9: in exact arithmetic the loops have the closed form \<open>2/3 - 1/(6 n\<^sup>2)\<close> for every
  integer \<open>n \<ge> 1\<close>; the estimate lies strictly below \<open>2/3\<close>, and every larger grid gives a
  strictly larger estimate.
\<close>

theorem riemann_closed_form_underestimates:
  assumes "1 \<le> n"
  shows "\<exists>v. numerical_integration_riemann n = Inr v
           \<and> v = 2 / 3 - 1 / (6 * (of_int n) ^ 2)
           \<and> v < 2 / 3
           \<and> (\<forall>m v'. n < m \<and> numerical_integration_riemann m = Inr v' \<longrightarrow> v < v')"
proof -
  have pos: "0 < (of_int n :: rat)" using assms by simp
  have mono: "2 / 3 - 1 / (6 * (of_int n) ^ 2) < 2 / 3 - 1 / (6 * (of_int m :: rat) ^ 2)"
    if "n < m" for m
  proof -
    have "(of_int n :: rat) < of_int m" using that by simp
    then have "(of_int n :: rat) ^ 2 < (of_int m) ^ 2"
      using pos by (simp add: power_strict_mono)
    then have "1 / (6 * (of_int m :: rat) ^ 2) < 1 / (6 * (of_int n) ^ 2)"
      using pos by (simp add: frac_less2)
    then show ?thesis by simp
  qed
  have later: "2 / 3 - 1 / (6 * (of_int n) ^ 2) < v'"
    if "n < m \<and> numerical_integration_riemann m = Inr v'" for m v'
  proof -
    from that assms have "1 \<le> m" by simp
    then have "numerical_integration_riemann m = Inr (2 / 3 - 1 / (6 * (of_int m) ^ 2))"
      by (rule riemann_closed_form)
    with that have "v' = 2 / 3 - 1 / (6 * (of_int m) ^ 2)" by simp
    with that mono show ?thesis by simp
  qed
  have "1 / (6 * (of_int n :: rat) ^ 2) > 0" using pos by simp
  then have under: "2 / 3 - 1 / (6 * (of_int n :: rat) ^ 2) < 2 / 3" by simp
  from riemann_closed_form [OF assms] under later show ?thesis by blast
qed

theorem riemann_closed_form_underestimates_witness:
  "(1::int) \<le> 2 \<and> numerical_integration_riemann 2 = Inr (5 / 8) \<and> (5 / 8 :: rat) < 2 / 3
     \<and> (2::int) < 3 \<and> numerical_integration_riemann 3 = Inr (35 / 54) \<and> (5 / 8 :: rat) < 35 / 54"
  using riemann_closed_form_underestimates [of 2] riemann_closed_form_underestimates [of 3]
  by auto






section \<open>Properties of the Monte Carlo estimate\<close>







text \<open>The estimate depends on the generator's state: two states, two results.\<close>

lemma monte_carlo_depends_on_generator:
  "fst (monte_carlo_integration tape_uniform 1 [0, 0]) = Inr (Num 0)
     \<and> fst (monte_carlo_integration tape_uniform 1 [1, 1]) = Inr (Num 2)"
  by (simp add: monte_carlo_integration_def tape_uniform_def np_mean_def surface_function_def)

section \<open>Properties of the weekly temperature report\<close>








end
